theory Spec2Isabelle
  imports Complex_Main
begin

section \<open>Rent versus buy: the calculation engine\<close>

text \<open>
  The engine is the module of core calculation logic (the second document of
  \<^verbatim>\<open>src/src/chart.ts\<close>): \<^verbatim>\<open>calculateMonthlyMortgage\<close>,
  \<^verbatim>\<open>calculateMortgageBalance\<close>, \<^verbatim>\<open>calculateProp13Tax\<close>,
  \<^verbatim>\<open>calculateNetWorth\<close> and \<^verbatim>\<open>findCrossoverYear\<close>.

  Numbers. A TypeScript \<^verbatim>\<open>number\<close> is an IEEE double. The embedding computes
  over \<^typ>\<open>real\<close>: rounding, infinities and NaN are outside of it, and every
  statement below is about the exact arithmetic the code spells out. Quantities
  that the engine only ever uses as whole numbers (the projection horizon, the
  loop counters, the number of months paid, the term in years) are \<^typ>\<open>int\<close>.
  In HOL a division by zero yields \<open>0\<close> where the code yields an infinity or NaN;
  statements that depend on a quotient say when its divisor is not zero.
\<close>

subsection \<open>Data\<close>

record CalculatorInputs =
  purchasePrice :: real
  downPaymentPercent :: real
  mortgageRate :: real
  monthlyRent :: real
  homeAppreciationRate :: real
  rentGrowthRate :: real
  investmentReturnRate :: real
  propertyTaxRate :: real
  hoaMonthly :: real
  maintenanceRate :: real
  closingCostRate :: real
  sellingCostRate :: real
  insuranceAnnual :: real

record YearlyData =
  year :: real
  buyNetWorth :: real
  rentNetWorth :: real
  homeValue :: real
  mortgageBalance :: real
  homeEquity :: real
  rentingInvestments :: real
  annualRent :: real
  annualOwnershipCost :: real

subsection \<open>Amortization\<close>

text \<open>\<^verbatim>\<open>Math.pow\<close> at a whole exponent; a negative exponent is the reciprocal power.\<close>

text \<open>The parameter \<^verbatim>\<open>principal\<close> is written \<open>principal'\<close>: HOL has a constant of
  that name.\<close>

definition Math_pow :: "real \<Rightarrow> int \<Rightarrow> real" where
  "Math_pow x n = x powi n"

definition calculateMonthlyMortgage :: "real \<Rightarrow> real \<Rightarrow> int \<Rightarrow> real" where
  "calculateMonthlyMortgage principal' annualRate years =
     (let monthlyRate = annualRate / 12;
          numPayments = years * 12
      in if monthlyRate = 0 then principal' / of_int numPayments
         else (principal' * monthlyRate * Math_pow (1 + monthlyRate) numPayments) /
              (Math_pow (1 + monthlyRate) numPayments - 1))"

definition calculateMortgageBalance :: "real \<Rightarrow> real \<Rightarrow> int \<Rightarrow> int \<Rightarrow> real" where
  "calculateMortgageBalance principal' annualRate monthsPaid years =
     (let monthlyRate = annualRate / 12;
          monthlyPayment = calculateMonthlyMortgage principal' annualRate years
      in if monthlyRate = 0 then principal' - monthlyPayment * of_int monthsPaid
         else let balance =
                    principal' * Math_pow (1 + monthlyRate) monthsPaid -
                    (monthlyPayment * (Math_pow (1 + monthlyRate) monthsPaid - 1)) / monthlyRate
              in max 0 balance)"

subsection \<open>Assessment\<close>

definition calculateProp13Tax :: "real \<Rightarrow> int \<Rightarrow> real \<Rightarrow> real" where
  "calculateProp13Tax price yr taxRate =
     (let assessedValue = price * Math_pow (102 / 100) yr
      in assessedValue * taxRate)"

subsection \<open>Simulation\<close>

text \<open>The constants that \<^verbatim>\<open>calculateNetWorth\<close> sets up before its loop. The two
  amortization calls leave the term to its default, 30 years.\<close>

definition downPayment :: "CalculatorInputs \<Rightarrow> real" where
  "downPayment inputs = purchasePrice inputs * (downPaymentPercent inputs / 100)"

definition loanAmount :: "CalculatorInputs \<Rightarrow> real" where
  "loanAmount inputs = purchasePrice inputs - downPayment inputs"

definition closingCosts :: "CalculatorInputs \<Rightarrow> real" where
  "closingCosts inputs = purchasePrice inputs * closingCostRate inputs"

definition monthlyMortgage :: "CalculatorInputs \<Rightarrow> real" where
  "monthlyMortgage inputs =
     calculateMonthlyMortgage (loanAmount inputs) (mortgageRate inputs) 30"

definition getAnnualInsurance :: "CalculatorInputs \<Rightarrow> real \<Rightarrow> real" where
  "getAnnualInsurance inputs hv =
     (if insuranceAnnual inputs > 0 then insuranceAnnual inputs else hv * (35 / 10000))"

text \<open>The inner loop, \<^verbatim>\<open>for (let month = 0; month < 12; month++)\<close>: add the
  savings, then grow.\<close>

function month_loop :: "CalculatorInputs \<Rightarrow> real \<Rightarrow> nat \<Rightarrow> real \<Rightarrow> real" where
  "month_loop inputs monthlySavings month invested =
     (if month < 12
      then month_loop inputs monthlySavings (month + 1)
             ((invested + monthlySavings) * (1 + investmentReturnRate inputs / 12))
      else invested)"
  by pat_completeness auto
termination
  by (relation "measure (\<lambda>(inputs, monthlySavings, month, invested). 12 - month)") auto

text \<open>The outer loop, \<^verbatim>\<open>for (let year = 1; year <= years; year++)\<close>. Its state is
  the counter \<open>yr\<close>, the two mutable locals (\<open>invested\<close> for
  \<^verbatim>\<open>rentingInvestments\<close>, and \<open>currentMonthlyRent\<close>) and the array \<open>results\<close>.\<close>

function year_loop ::
  "CalculatorInputs \<Rightarrow> int \<Rightarrow> int \<Rightarrow> real \<Rightarrow> real \<Rightarrow> YearlyData list \<Rightarrow> YearlyData list" where
  "year_loop inputs years yr invested currentMonthlyRent results =
     (if yr \<le> years then
        let hv = purchasePrice inputs * Math_pow (1 + homeAppreciationRate inputs) yr;
            balance = calculateMortgageBalance (loanAmount inputs) (mortgageRate inputs) (yr * 12) 30;
            annualMortgage = monthlyMortgage inputs * 12;
            annualPropertyTax =
              calculateProp13Tax (purchasePrice inputs) (yr - 1) (propertyTaxRate inputs);
            annualHoa = hoaMonthly inputs * 12;
            annualMaintenance = hv * maintenanceRate inputs;
            annualInsurance = getAnnualInsurance inputs hv;
            ownershipCost =
              annualMortgage + annualPropertyTax + annualHoa + annualMaintenance + annualInsurance;
            equity = hv - balance;
            sellingCosts = hv * sellingCostRate inputs;
            buy = equity - sellingCosts - closingCosts inputs;
            rentOfYear = currentMonthlyRent * 12;
            monthlyOwnershipCost = ownershipCost / 12;
            monthlySavings = monthlyOwnershipCost - currentMonthlyRent;
            invested' = month_loop inputs monthlySavings 0 invested;
            results' = results @
              [\<lparr>year = of_int yr,
                buyNetWorth = buy,
                rentNetWorth = invested',
                homeValue = hv,
                mortgageBalance = balance,
                homeEquity = equity,
                rentingInvestments = invested',
                annualRent = rentOfYear,
                annualOwnershipCost = ownershipCost\<rparr>]
        in year_loop inputs years (yr + 1) invested'
             (currentMonthlyRent * (1 + rentGrowthRate inputs)) results'
      else results)"
  by pat_completeness auto
termination
  by (relation "measure (\<lambda>(inputs, years, yr, invested, currentMonthlyRent, results).
        nat (years + 1 - yr))") auto

definition calculateNetWorth :: "CalculatorInputs \<Rightarrow> int \<Rightarrow> YearlyData list" where
  "calculateNetWorth inputs years =
     (let initialHomeValue = purchasePrice inputs;
          invested = downPayment inputs + closingCosts inputs;
          currentMonthlyRent = monthlyRent inputs;
          initialSellingCosts = initialHomeValue * sellingCostRate inputs;
          results =
            [\<lparr>year = 0,
              buyNetWorth = downPayment inputs - initialSellingCosts - closingCosts inputs,
              rentNetWorth = invested,
              homeValue = initialHomeValue,
              mortgageBalance = loanAmount inputs,
              homeEquity = downPayment inputs,
              rentingInvestments = invested,
              annualRent = 0,
              annualOwnershipCost = closingCosts inputs\<rparr>]
      in year_loop inputs years 1 invested currentMonthlyRent results)"

subsection \<open>Crossover\<close>

text \<open>\<^verbatim>\<open>for (let i = 1; i < data.length; i++)\<close>, returning at the first pair whose
  lines cross; \<^verbatim>\<open>null\<close> is \<open>None\<close>.\<close>

function findCrossoverYear_loop :: "YearlyData list \<Rightarrow> nat \<Rightarrow> real option" where
  "findCrossoverYear_loop data i =
     (if i < length data then
        let prev = data ! (i - 1);
            curr = data ! i
        in if buyNetWorth prev \<le> rentNetWorth prev \<and> buyNetWorth curr > rentNetWorth curr
           then let ratio =
                      (rentNetWorth prev - buyNetWorth prev) /
                      (buyNetWorth curr - rentNetWorth curr + rentNetWorth prev - buyNetWorth prev)
                in Some (year prev + ratio)
           else findCrossoverYear_loop data (i + 1)
      else None)"
  by pat_completeness auto
termination
  by (relation "measure (\<lambda>(data, i). length data - i)") auto

definition findCrossoverYear :: "YearlyData list \<Rightarrow> real option" where
  "findCrossoverYear data = findCrossoverYear_loop data 1"

declare month_loop.simps [simp del]
declare year_loop.simps [simp del]
declare findCrossoverYear_loop.simps [simp del]

subsection \<open>Inputs of the test suite\<close>

text \<open>\<^verbatim>\<open>baseInputs\<close> of the tests of \<^verbatim>\<open>calculateNetWorth\<close>.\<close>

definition baseInputs :: CalculatorInputs where
  "baseInputs =
     \<lparr>purchasePrice = 1500000,
      downPaymentPercent = 20,
      mortgageRate = 65 / 1000,
      monthlyRent = 4000,
      homeAppreciationRate = 4 / 100,
      rentGrowthRate = 3 / 100,
      investmentReturnRate = 7 / 100,
      propertyTaxRate = 115 / 10000,
      hoaMonthly = 0,
      maintenanceRate = 1 / 100,
      closingCostRate = 25 / 1000,
      sellingCostRate = 6 / 100,
      insuranceAnnual = 0\<rparr>"

text \<open>The tests of \<^verbatim>\<open>findCrossoverYear\<close> build records of three fields
  (\<^verbatim>\<open>{ year, buyNetWorth, rentNetWorth } as any\<close>); the fields the function never
  reads are \<open>0\<close> here.\<close>

definition netWorthRecord :: "real \<Rightarrow> real \<Rightarrow> real \<Rightarrow> YearlyData" where
  "netWorthRecord y buy rent =
     \<lparr>year = y, buyNetWorth = buy, rentNetWorth = rent, homeValue = 0, mortgageBalance = 0,
      homeEquity = 0, rentingInvestments = 0, annualRent = 0, annualOwnershipCost = 0\<rparr>"

definition crossoverData :: "YearlyData list" where
  "crossoverData =
     [netWorthRecord 0 100 200, netWorthRecord 1 180 220, netWorthRecord 2 260 240]"

text \<open>Further record sequences in the same three-field form: two crossings, buying
  ahead throughout, renting ahead throughout (the data of the test
  \<^verbatim>\<open>returns null when buy never beats rent\<close>), and a tie at year 0.\<close>

definition twoCrossings :: "YearlyData list" where
  "twoCrossings =
     [netWorthRecord 0 100 200, netWorthRecord 1 300 200, netWorthRecord 2 100 200,
      netWorthRecord 3 400 200]"

definition buyLeads :: "YearlyData list" where
  "buyLeads = [netWorthRecord 0 300 200, netWorthRecord 1 350 250, netWorthRecord 2 400 300]"

definition rentLeads :: "YearlyData list" where
  "rentLeads = [netWorthRecord 0 100 200, netWorthRecord 1 150 250, netWorthRecord 2 200 300]"

definition tieData :: "YearlyData list" where
  "tieData = [netWorthRecord 0 100 100, netWorthRecord 1 200 150]"

text \<open>An interest-free loan of 360,000: the inputs of the test suite with price 450,000
  (20 percent down) and mortgage rate 0.\<close>

definition zeroRateInputs :: CalculatorInputs where
  "zeroRateInputs = baseInputs\<lparr>purchasePrice := 450000, mortgageRate := 0\<rparr>"

section \<open>The specification's description of the simulation\<close>

text \<open>The definitions of this section follow the words of the specification, year by
  year in closed form; the loop of the code is proved to compute them.\<close>

text \<open>One monthly step of the renter's balance: add, then grow.\<close>

definition rent_step :: "CalculatorInputs \<Rightarrow> real \<Rightarrow> real \<Rightarrow> real" where
  "rent_step inputs monthlySavings b =
     (b + monthlySavings) * (1 + investmentReturnRate inputs / 12)"

definition spec_homeValue :: "CalculatorInputs \<Rightarrow> nat \<Rightarrow> real" where
  "spec_homeValue inputs y = purchasePrice inputs * (1 + homeAppreciationRate inputs) ^ y"

text \<open>The monthly rent in effect during year \<open>y \<ge> 1\<close>.\<close>

definition spec_monthlyRent :: "CalculatorInputs \<Rightarrow> nat \<Rightarrow> real" where
  "spec_monthlyRent inputs y = monthlyRent inputs * (1 + rentGrowthRate inputs) ^ (y - 1)"

definition spec_ownershipCost :: "CalculatorInputs \<Rightarrow> nat \<Rightarrow> real" where
  "spec_ownershipCost inputs y =
     monthlyMortgage inputs * 12
     + purchasePrice inputs * (102 / 100) ^ (y - 1) * propertyTaxRate inputs
     + hoaMonthly inputs * 12
     + spec_homeValue inputs y * maintenanceRate inputs
     + getAnnualInsurance inputs (spec_homeValue inputs y)"

fun spec_rentBalance :: "CalculatorInputs \<Rightarrow> nat \<Rightarrow> real" where
  "spec_rentBalance inputs 0 = downPayment inputs + closingCosts inputs"
| "spec_rentBalance inputs (Suc n) =
     (rent_step inputs
        (spec_ownershipCost inputs (Suc n) / 12 - spec_monthlyRent inputs (Suc n)) ^^ 12)
       (spec_rentBalance inputs n)"

definition spec_record :: "CalculatorInputs \<Rightarrow> nat \<Rightarrow> YearlyData" where
  "spec_record inputs y =
     (if y = 0 then
        \<lparr>year = 0,
         buyNetWorth = downPayment inputs - purchasePrice inputs * sellingCostRate inputs
                       - closingCosts inputs,
         rentNetWorth = downPayment inputs + closingCosts inputs,
         homeValue = purchasePrice inputs,
         mortgageBalance = loanAmount inputs,
         homeEquity = downPayment inputs,
         rentingInvestments = downPayment inputs + closingCosts inputs,
         annualRent = 0,
         annualOwnershipCost = closingCosts inputs\<rparr>
      else
        \<lparr>year = of_nat y,
         buyNetWorth =
           spec_homeValue inputs y
           - calculateMortgageBalance (loanAmount inputs) (mortgageRate inputs) (int y * 12) 30
           - spec_homeValue inputs y * sellingCostRate inputs - closingCosts inputs,
         rentNetWorth = spec_rentBalance inputs y,
         homeValue = spec_homeValue inputs y,
         mortgageBalance =
           calculateMortgageBalance (loanAmount inputs) (mortgageRate inputs) (int y * 12) 30,
         homeEquity =
           spec_homeValue inputs y
           - calculateMortgageBalance (loanAmount inputs) (mortgageRate inputs) (int y * 12) 30,
         rentingInvestments = spec_rentBalance inputs y,
         annualRent = spec_monthlyRent inputs y * 12,
         annualOwnershipCost = spec_ownershipCost inputs y\<rparr>)"

text \<open>The specification's crossover: the pair at which buying overtakes renting, and
  the interpolated year, in the specification's form of the quotient (\<open>prv\<close> and \<open>cur\<close>
  are the specification's \<^verbatim>\<open>prev\<close> and \<^verbatim>\<open>curr\<close>).\<close>

definition transition_pair :: "YearlyData \<Rightarrow> YearlyData \<Rightarrow> bool" where
  "transition_pair prv cur \<longleftrightarrow>
     buyNetWorth prv \<le> rentNetWorth prv \<and> buyNetWorth cur > rentNetWorth cur"

definition spec_crossover :: "YearlyData \<Rightarrow> YearlyData \<Rightarrow> real" where
  "spec_crossover prv cur =
     year prv + (rentNetWorth prv - buyNetWorth prv) /
       ((buyNetWorth cur - buyNetWorth prv) - (rentNetWorth cur - rentNetWorth prv))"

definition first_transition :: "YearlyData list \<Rightarrow> nat option" where
  "first_transition data =
     find (\<lambda>i. transition_pair (data ! (i - 1)) (data ! i)) [1 ..< length data]"

section \<open>Properties\<close>

subsection \<open>The simulation computes the closed form\<close>

lemma month_loop_funpow:
  "month_loop inputs s m b = (rent_step inputs s ^^ (12 - m)) b"
proof (induction inputs s m b rule: month_loop.induct)
  case (1 inputs s m b)
  show ?case
  proof (cases "m < 12")
    case True
    have step: "rent_step inputs s b = (b + s) * (1 + investmentReturnRate inputs / 12)"
      by (simp add: rent_step_def)
    from True have "12 - m = Suc (12 - (m + 1))" by simp
    then have "(rent_step inputs s ^^ (12 - m)) b
             = (rent_step inputs s ^^ (12 - (m + 1))) (rent_step inputs s b)"
      by (simp only: funpow_Suc_right o_apply)
    also have "\<dots> = month_loop inputs s (m + 1) (rent_step inputs s b)"
      by (simp only: step "1.IH" [OF True])
    also have "\<dots> = month_loop inputs s m b"
      using True by (subst (2) month_loop.simps) (simp only: step if_True)
    finally show ?thesis by simp
  next
    case False
    then show ?thesis by (subst month_loop.simps) simp
  qed
qed

lemma year_loop_exit:
  "years < yr \<Longrightarrow> year_loop inputs years yr b r results = results"
  by (subst year_loop.simps) simp

lemma year_loop_step:
  "year_loop inputs years (int (Suc n)) (spec_rentBalance inputs n)
      (monthlyRent inputs * (1 + rentGrowthRate inputs) ^ n) results =
   (if int (Suc n) \<le> years
    then year_loop inputs years (int (Suc (Suc n))) (spec_rentBalance inputs (Suc n))
           (monthlyRent inputs * (1 + rentGrowthRate inputs) ^ Suc n)
           (results @ [spec_record inputs (Suc n)])
    else results)"
proof (cases "int (Suc n) \<le> years")
  case False
  then show ?thesis by (simp add: year_loop_exit)
next
  case True
  have hv: "purchasePrice inputs * Math_pow (1 + homeAppreciationRate inputs) (int (Suc n))
            = spec_homeValue inputs (Suc n)"
    unfolding Math_pow_def spec_homeValue_def by (simp only: power_int_of_nat)
  have "int (Suc n) - 1 = int n" by simp
  then have tax: "calculateProp13Tax (purchasePrice inputs) (int (Suc n) - 1) (propertyTaxRate inputs)
             = purchasePrice inputs * (102 / 100) ^ n * propertyTaxRate inputs"
    unfolding calculateProp13Tax_def Math_pow_def Let_def by (simp only: power_int_of_nat)
  have cost: "monthlyMortgage inputs * 12
      + purchasePrice inputs * (102 / 100) ^ n * propertyTaxRate inputs
      + hoaMonthly inputs * 12
      + spec_homeValue inputs (Suc n) * maintenanceRate inputs
      + getAnnualInsurance inputs (spec_homeValue inputs (Suc n))
      = spec_ownershipCost inputs (Suc n)"
    by (simp add: spec_ownershipCost_def)
  have cmr: "monthlyRent inputs * (1 + rentGrowthRate inputs) ^ n = spec_monthlyRent inputs (Suc n)"
    by (simp add: spec_monthlyRent_def)
  have cmr': "spec_monthlyRent inputs (Suc n) * (1 + rentGrowthRate inputs)
              = monthlyRent inputs * (1 + rentGrowthRate inputs) ^ Suc n"
    by (simp add: spec_monthlyRent_def)
  have ml: "month_loop inputs
              (spec_ownershipCost inputs (Suc n) / 12 - spec_monthlyRent inputs (Suc n)) 0
              (spec_rentBalance inputs n) = spec_rentBalance inputs (Suc n)"
    by (simp add: month_loop_funpow)
  have rc: "\<lparr>year = of_int (int (Suc n)),
          buyNetWorth = spec_homeValue inputs (Suc n)
             - calculateMortgageBalance (loanAmount inputs) (mortgageRate inputs) (int (Suc n) * 12) 30
             - spec_homeValue inputs (Suc n) * sellingCostRate inputs - closingCosts inputs,
          rentNetWorth = spec_rentBalance inputs (Suc n),
          homeValue = spec_homeValue inputs (Suc n),
          mortgageBalance =
            calculateMortgageBalance (loanAmount inputs) (mortgageRate inputs) (int (Suc n) * 12) 30,
          homeEquity = spec_homeValue inputs (Suc n)
             - calculateMortgageBalance (loanAmount inputs) (mortgageRate inputs) (int (Suc n) * 12) 30,
          rentingInvestments = spec_rentBalance inputs (Suc n),
          annualRent = spec_monthlyRent inputs (Suc n) * 12,
          annualOwnershipCost = spec_ownershipCost inputs (Suc n)\<rparr>
        = spec_record inputs (Suc n)"
    by (simp add: spec_record_def)
  have nx: "int (Suc n) + 1 = int (Suc (Suc n))" by simp
  show ?thesis
    apply (subst year_loop.simps)
    apply (simp only: True if_True Let_def hv tax cost cmr ml rc nx cmr')
    done
qed

lemma year_loop_spec:
  "year_loop inputs years (int (Suc n)) (spec_rentBalance inputs n)
      (monthlyRent inputs * (1 + rentGrowthRate inputs) ^ n) results =
   results @ map (spec_record inputs) [Suc n ..< Suc (nat years)]"
proof (induction "Suc (nat years) - Suc n" arbitrary: n results)
  case 0
  then have "years < int (Suc n)" by linarith
  with 0 show ?case by (simp add: year_loop_exit)
next
  case (Suc d)
  then have le: "int (Suc n) \<le> years" and d: "d = Suc (nat years) - Suc (Suc n)"
    by linarith+
  from le have "Suc n < Suc (nat years)" by linarith
  then have up: "[Suc n ..< Suc (nat years)] = Suc n # [Suc (Suc n) ..< Suc (nat years)]"
    by (rule upt_conv_Cons)
  have "year_loop inputs years (int (Suc n)) (spec_rentBalance inputs n)
          (monthlyRent inputs * (1 + rentGrowthRate inputs) ^ n) results
        = year_loop inputs years (int (Suc (Suc n))) (spec_rentBalance inputs (Suc n))
            (monthlyRent inputs * (1 + rentGrowthRate inputs) ^ Suc n)
            (results @ [spec_record inputs (Suc n)])"
    using le by (subst year_loop_step) (simp only: if_True)
  also have "\<dots> = (results @ [spec_record inputs (Suc n)])
                      @ map (spec_record inputs) [Suc (Suc n) ..< Suc (nat years)]"
    by (rule Suc.hyps(1) [OF d])
  also have "\<dots> = results @ map (spec_record inputs) [Suc n ..< Suc (nat years)]"
    by (simp only: up list.map append_assoc append.simps)
  finally show ?case .
qed

lemma calculateNetWorth_spec:
  "calculateNetWorth inputs years = map (spec_record inputs) [0 ..< Suc (nat years)]"
proof -
  have "calculateNetWorth inputs years =
        year_loop inputs years (int (Suc 0)) (spec_rentBalance inputs 0)
          (monthlyRent inputs * (1 + rentGrowthRate inputs) ^ 0) [spec_record inputs 0]"
    by (simp add: calculateNetWorth_def spec_record_def Let_def)
  also have "\<dots> = [spec_record inputs 0] @ map (spec_record inputs) [Suc 0 ..< Suc (nat years)]"
    by (rule year_loop_spec)
  also have "\<dots> = map (spec_record inputs) [0 ..< Suc (nat years)]"
    by (simp add: upt_conv_Cons)
  finally show ?thesis .
qed

subsection \<open>The shape of the result\<close>

lemma calculateNetWorth_length: "length (calculateNetWorth inputs years) = Suc (nat years)"
  by (simp add: calculateNetWorth_spec)

lemma calculateNetWorth_nth:
  "y \<le> nat years \<Longrightarrow> calculateNetWorth inputs years ! y = spec_record inputs y"
proof -
  assume "y \<le> nat years"
  then have "y < length [0 ..< Suc (nat years)]" by simp
  then have "map (spec_record inputs) [0 ..< Suc (nat years)] ! y
             = spec_record inputs ([0 ..< Suc (nat years)] ! y)"
    by (rule nth_map)
  also have "[0 ..< Suc (nat years)] ! y = y"
    using \<open>y \<le> nat years\<close> by (metis add_0 less_Suc_eq_le nth_upt)
  finally show ?thesis by (simp only: calculateNetWorth_spec)
qed

lemma year_spec_record: "year (spec_record inputs y) = of_nat y"
  by (simp add: spec_record_def)

lemma map_year_calculateNetWorth:
  "map year (calculateNetWorth inputs years) = map of_nat [0 ..< Suc (nat years)]"
  by (simp only: calculateNetWorth_spec map_map o_def year_spec_record)

lemma map_of_nat_upt:
  "0 \<le> years \<Longrightarrow> map real [0 ..< Suc (nat years)] = map of_int [0 .. years]"
proof (rule nth_equalityI)
  assume "0 \<le> years"
  then show "length (map real [0 ..< Suc (nat years)]) = length (map real_of_int [0 .. years])"
    by simp
next
  fix k
  assume nonneg: "0 \<le> years" and "k < length (map real [0 ..< Suc (nat years)])"
  then have k: "k \<le> nat years" by simp
  then have "0 + int k \<le> years" using nonneg by linarith
  then have r: "[0 .. years] ! k = 0 + int k" by (rule nth_upto)
  have l: "[0 ..< Suc (nat years)] ! k = k"
    using k by (metis add_0 less_Suc_eq_le nth_upt)
  have "k < length [0 ..< Suc (nat years)]" using k by simp
  then have "map real [0 ..< Suc (nat years)] ! k = real k"
    by (simp only: nth_map l)
  moreover have "k < length [0 .. years]" using k nonneg by simp
  then have "map real_of_int [0 .. years] ! k = real_of_int (0 + int k)"
    by (simp only: nth_map r)
  ultimately show "map real [0 ..< Suc (nat years)] ! k = map real_of_int [0 .. years] ! k"
    by simp
qed

text \<open>Claim C2. For a horizon \<open>years \<ge> 0\<close>, \<^verbatim>\<open>calculateNetWorth\<close> returns exactly
  \<open>years + 1\<close> records; their \<^verbatim>\<open>year\<close> fields are \<open>0, 1, \<dots>, years\<close> in this order, which
  is strictly increasing. At \<open>years = 0\<close> that is the year-0 record alone.\<close>

theorem calculateNetWorth_years:
  "0 \<le> years \<Longrightarrow>
     int (length (calculateNetWorth inputs years)) = years + 1
     \<and> map year (calculateNetWorth inputs years) = map of_int [0 .. years]
     \<and> sorted_wrt (<) (map year (calculateNetWorth inputs years))"
proof -
  assume nonneg: "0 \<le> years"
  have len: "int (length (calculateNetWorth inputs years)) = years + 1"
    using nonneg by (simp add: calculateNetWorth_length)
  have yrs: "map year (calculateNetWorth inputs years) = map of_int [0 .. years]"
    using nonneg by (simp only: map_year_calculateNetWorth map_of_nat_upt)
  have "sorted_wrt (<) (map real_of_int [0 .. years])"
    by (simp add: sorted_wrt_map)
  with len yrs show ?thesis by simp
qed

theorem calculateNetWorth_years_witness:
  "(0::int) \<le> 2
   \<and> int (length (calculateNetWorth baseInputs 2)) = 3
   \<and> map year (calculateNetWorth baseInputs 2) = [0, 1, 2]
   \<and> sorted_wrt (<) (map year (calculateNetWorth baseInputs 2))
   \<and> int (length (calculateNetWorth baseInputs 0)) = 1
   \<and> map year (calculateNetWorth baseInputs 0) = [0]"
proof -
  have h: "(0::int) \<le> 2" and h0: "(0::int) \<le> 0" by simp_all
  have "[0 .. 2::int] = [0, 1, 2]" by (simp add: upto.simps)
  with calculateNetWorth_years [OF h, of baseInputs] calculateNetWorth_years [OF h0, of baseInputs]
  show ?thesis by simp
qed

text \<open>Claim C10. For a negative horizon the loop body never runs, and the result is the
  one-element list of the year-0 record.\<close>

theorem calculateNetWorth_negative_years:
  "years < 0 \<Longrightarrow>
     calculateNetWorth inputs years =
       [\<lparr>year = 0,
         buyNetWorth = purchasePrice inputs * (downPaymentPercent inputs / 100)
                       - purchasePrice inputs * sellingCostRate inputs
                       - purchasePrice inputs * closingCostRate inputs,
         rentNetWorth = purchasePrice inputs * (downPaymentPercent inputs / 100)
                       + purchasePrice inputs * closingCostRate inputs,
         homeValue = purchasePrice inputs,
         mortgageBalance = purchasePrice inputs
                       - purchasePrice inputs * (downPaymentPercent inputs / 100),
         homeEquity = purchasePrice inputs * (downPaymentPercent inputs / 100),
         rentingInvestments = purchasePrice inputs * (downPaymentPercent inputs / 100)
                       + purchasePrice inputs * closingCostRate inputs,
         annualRent = 0,
         annualOwnershipCost = purchasePrice inputs * closingCostRate inputs\<rparr>]"
  by (simp add: calculateNetWorth_def Let_def year_loop_exit downPayment_def loanAmount_def
      closingCosts_def)

theorem calculateNetWorth_negative_years_witness:
  "(-3::int) < 0 \<and>
   calculateNetWorth baseInputs (-3) =
     [\<lparr>year = 0, buyNetWorth = 172500, rentNetWorth = 337500, homeValue = 1500000,
       mortgageBalance = 1200000, homeEquity = 300000, rentingInvestments = 337500,
       annualRent = 0, annualOwnershipCost = 37500\<rparr>]"
proof -
  have h: "(-3::int) < 0" by simp
  show ?thesis using calculateNetWorth_negative_years [OF h, of baseInputs]
    by (simp add: baseInputs_def)
qed

subsection \<open>The record of year 0\<close>

text \<open>Claim C3. Whatever the horizon, the first record holds: buy net worth = down payment
  - price \<times> selling-cost rate - price \<times> closing-cost rate; rent net worth = down payment +
  closing costs; home value = price; mortgage balance = price - down payment; home equity =
  down payment; annual rent = 0; annual ownership cost = closing costs. With price 1,500,000,
  20 percent down, closing-cost rate 0.025 and selling-cost rate 0.06 (the other inputs
  arbitrary) the year-0 buy net worth is 172,500 and the rent net worth 337,500.\<close>

theorem calculateNetWorth_year0:
  "buyNetWorth (calculateNetWorth inputs years ! 0) =
     purchasePrice inputs * (downPaymentPercent inputs / 100)
     - purchasePrice inputs * sellingCostRate inputs
     - purchasePrice inputs * closingCostRate inputs
   \<and> rentNetWorth (calculateNetWorth inputs years ! 0) =
     purchasePrice inputs * (downPaymentPercent inputs / 100)
     + purchasePrice inputs * closingCostRate inputs
   \<and> homeValue (calculateNetWorth inputs years ! 0) = purchasePrice inputs
   \<and> mortgageBalance (calculateNetWorth inputs years ! 0) =
     purchasePrice inputs - purchasePrice inputs * (downPaymentPercent inputs / 100)
   \<and> homeEquity (calculateNetWorth inputs years ! 0) =
     purchasePrice inputs * (downPaymentPercent inputs / 100)
   \<and> annualRent (calculateNetWorth inputs years ! 0) = 0
   \<and> annualOwnershipCost (calculateNetWorth inputs years ! 0) =
     purchasePrice inputs * closingCostRate inputs
   \<and> year (calculateNetWorth inputs years ! 0) = 0
   \<and> buyNetWorth (calculateNetWorth
        (inputs\<lparr>purchasePrice := 1500000, downPaymentPercent := 20,
                 closingCostRate := 25 / 1000, sellingCostRate := 6 / 100\<rparr>) years ! 0) = 172500
   \<and> rentNetWorth (calculateNetWorth
        (inputs\<lparr>purchasePrice := 1500000, downPaymentPercent := 20,
                 closingCostRate := 25 / 1000, sellingCostRate := 6 / 100\<rparr>) years ! 0) = 337500"
proof -
  have "calculateNetWorth i years ! 0 = spec_record i 0" for i
    by (rule calculateNetWorth_nth) simp
  then show ?thesis
    by (simp add: spec_record_def downPayment_def loanAmount_def closingCosts_def)
qed



subsection \<open>The records of the simulated years\<close>

lemma rentNetWorth_spec_record:
  "rentNetWorth (spec_record inputs y) = spec_rentBalance inputs y"
  by (cases y) (simp_all add: spec_record_def)

lemma rent_step_fun:
  "rent_step inputs s = (\<lambda>b. (b + s) * (1 + investmentReturnRate inputs / 12))"
  by (rule ext) (simp add: rent_step_def)

lemma homeValue_spec_record:
  "homeValue (spec_record inputs y) = spec_homeValue inputs y"
  by (cases y) (simp_all add: spec_record_def spec_homeValue_def)

lemma annualOwnershipCost_spec_record:
  "0 < y \<Longrightarrow> annualOwnershipCost (spec_record inputs y) = spec_ownershipCost inputs y"
  by (simp add: spec_record_def)

text \<open>Claim C4. For a simulated year \<open>y\<close> from 1 to \<open>years\<close>, the rent-side net worth of
  year \<open>y\<close> is the rent-side net worth of year \<open>y - 1\<close> after twelve applications of one and
  the same step: add (annual ownership cost of year \<open>y\<close> / 12 - monthly rent of year \<open>y\<close>),
  then multiply by (1 + investment return rate / 12). The monthly rent of year \<open>y\<close> is the
  input rent grown \<open>y - 1\<close> times, and the recorded annual rent is twelve times it.\<close>

theorem rent_side_monthly_compounding:
  "1 \<le> y \<Longrightarrow> int y \<le> years \<Longrightarrow>
     rentNetWorth (calculateNetWorth inputs years ! y) =
       ((\<lambda>b. (b + (annualOwnershipCost (calculateNetWorth inputs years ! y) / 12
                     - monthlyRent inputs * (1 + rentGrowthRate inputs) ^ (y - 1)))
                * (1 + investmentReturnRate inputs / 12)) ^^ 12)
         (rentNetWorth (calculateNetWorth inputs years ! (y - 1)))
     \<and> annualRent (calculateNetWorth inputs years ! y) =
         monthlyRent inputs * (1 + rentGrowthRate inputs) ^ (y - 1) * 12"
proof -
  assume y: "1 \<le> y" and le: "int y \<le> years"
  then obtain n where n: "y = Suc n" by (cases y) simp_all
  from le have "y \<le> nat years" "y - 1 \<le> nat years" by linarith+
  then have cur: "calculateNetWorth inputs years ! y = spec_record inputs y"
    and prv: "calculateNetWorth inputs years ! (y - 1) = spec_record inputs (y - 1)"
    by (simp_all only: calculateNetWorth_nth)
  have cost: "annualOwnershipCost (spec_record inputs y) = spec_ownershipCost inputs y"
    using y by (simp add: annualOwnershipCost_spec_record)
  have rent: "annualRent (spec_record inputs y) = spec_monthlyRent inputs y * 12"
    using y by (simp add: spec_record_def)
  show ?thesis
    unfolding cur prv rentNetWorth_spec_record cost rent
    by (simp add: n rent_step_fun spec_monthlyRent_def)
qed

theorem rent_side_monthly_compounding_witness:
  "(1::nat) \<le> 2 \<and> int 2 \<le> 5 \<and>
     rentNetWorth (calculateNetWorth baseInputs 5 ! 2) =
       ((\<lambda>b. (b + (annualOwnershipCost (calculateNetWorth baseInputs 5 ! 2) / 12
                     - monthlyRent baseInputs * (1 + rentGrowthRate baseInputs) ^ (2 - 1)))
                * (1 + investmentReturnRate baseInputs / 12)) ^^ 12)
         (rentNetWorth (calculateNetWorth baseInputs 5 ! (2 - 1)))
     \<and> annualRent (calculateNetWorth baseInputs 5 ! 2) =
         monthlyRent baseInputs * (1 + rentGrowthRate baseInputs) ^ (2 - 1) * 12"
proof -
  have h1: "(1::nat) \<le> 2" and h2: "int 2 \<le> 5" by simp_all
  from rent_side_monthly_compounding [OF h1 h2, of baseInputs] h1 h2 show ?thesis
    by (intro conjI) (erule conjunct1 conjunct2 | assumption)+
qed

text \<open>Claim C5. For a simulated year \<open>y\<close> from 1 to \<open>years\<close>, the annual ownership cost is
  the sum of twelve mortgage payments, the property tax, twelve HOA fees, maintenance and
  insurance, and its property-tax term is price \<times> 1.02 ^ (y - 1) \<times> tax rate: what
  \<^verbatim>\<open>calculateProp13Tax\<close> returns for the assessment year \<open>y - 1\<close>, with no
  home-appreciation rate in it.\<close>

theorem property_tax_component:
  "1 \<le> y \<Longrightarrow> int y \<le> years \<Longrightarrow>
     annualOwnershipCost (calculateNetWorth inputs years ! y) =
       monthlyMortgage inputs * 12
       + purchasePrice inputs * (102 / 100) ^ (y - 1) * propertyTaxRate inputs
       + hoaMonthly inputs * 12
       + homeValue (calculateNetWorth inputs years ! y) * maintenanceRate inputs
       + getAnnualInsurance inputs (homeValue (calculateNetWorth inputs years ! y))
     \<and> calculateProp13Tax (purchasePrice inputs) (int y - 1) (propertyTaxRate inputs) =
       purchasePrice inputs * (102 / 100) ^ (y - 1) * propertyTaxRate inputs"
proof -
  assume y: "1 \<le> y" and le: "int y \<le> years"
  from le have "y \<le> nat years" by linarith
  then have cur: "calculateNetWorth inputs years ! y = spec_record inputs y"
    by (rule calculateNetWorth_nth)
  have cost: "annualOwnershipCost (spec_record inputs y) = spec_ownershipCost inputs y"
    using y by (simp add: annualOwnershipCost_spec_record)
  from y have "int y - 1 = int (y - 1)" by simp
  then have tax: "calculateProp13Tax (purchasePrice inputs) (int y - 1) (propertyTaxRate inputs) =
       purchasePrice inputs * (102 / 100) ^ (y - 1) * propertyTaxRate inputs"
    unfolding calculateProp13Tax_def Math_pow_def Let_def by (simp only: power_int_of_nat)
  show ?thesis
    unfolding cur cost homeValue_spec_record
    by (simp add: spec_ownershipCost_def tax)
qed

theorem property_tax_component_witness:
  "(1::nat) \<le> 3 \<and> int 3 \<le> 5 \<and>
     annualOwnershipCost (calculateNetWorth baseInputs 5 ! 3) =
       monthlyMortgage baseInputs * 12
       + purchasePrice baseInputs * (102 / 100) ^ (3 - 1) * propertyTaxRate baseInputs
       + hoaMonthly baseInputs * 12
       + homeValue (calculateNetWorth baseInputs 5 ! 3) * maintenanceRate baseInputs
       + getAnnualInsurance baseInputs (homeValue (calculateNetWorth baseInputs 5 ! 3))
     \<and> calculateProp13Tax (purchasePrice baseInputs) (int 3 - 1) (propertyTaxRate baseInputs) =
       purchasePrice baseInputs * (102 / 100) ^ (3 - 1) * propertyTaxRate baseInputs"
proof -
  have h1: "(1::nat) \<le> 3" and h2: "int 3 \<le> 5" by simp_all
  from property_tax_component [OF h1 h2, of baseInputs] h1 h2 show ?thesis
    by (intro conjI) (erule conjunct1 conjunct2 | assumption)+
qed

text \<open>Claim C7. Whatever the horizon \<open>years\<close>, the mortgage balance recorded for a year
  \<open>y\<close> is the balance of the 30-year amortization of the loan amount after \<open>12 y\<close> months,
  the mortgage part of the ownership cost is twelve payments of that 30-year amortization,
  and the record of year \<open>y\<close> is the same under any other horizon that reaches \<open>y\<close>.\<close>

theorem thirty_year_term:
  "1 \<le> y \<Longrightarrow> int y \<le> years \<Longrightarrow>
     mortgageBalance (calculateNetWorth inputs years ! y) =
       calculateMortgageBalance (loanAmount inputs) (mortgageRate inputs) (int y * 12) 30
     \<and> annualOwnershipCost (calculateNetWorth inputs years ! y) =
       calculateMonthlyMortgage (loanAmount inputs) (mortgageRate inputs) 30 * 12
       + calculateProp13Tax (purchasePrice inputs) (int y - 1) (propertyTaxRate inputs)
       + hoaMonthly inputs * 12
       + homeValue (calculateNetWorth inputs years ! y) * maintenanceRate inputs
       + getAnnualInsurance inputs (homeValue (calculateNetWorth inputs years ! y))
     \<and> (int y \<le> years' \<longrightarrow>
          calculateNetWorth inputs years' ! y = calculateNetWorth inputs years ! y)"
proof -
  assume y: "1 \<le> y" and le: "int y \<le> years"
  from le have "y \<le> nat years" by linarith
  then have cur: "calculateNetWorth inputs years ! y = spec_record inputs y"
    by (rule calculateNetWorth_nth)
  have other: "calculateNetWorth inputs years' ! y = spec_record inputs y" if "int y \<le> years'"
  proof -
    from that have "y \<le> nat years'" by linarith
    then show ?thesis by (rule calculateNetWorth_nth)
  qed
  have cost: "annualOwnershipCost (spec_record inputs y) = spec_ownershipCost inputs y"
    using y by (simp add: annualOwnershipCost_spec_record)
  have bal: "mortgageBalance (spec_record inputs y) =
       calculateMortgageBalance (loanAmount inputs) (mortgageRate inputs) (int y * 12) 30"
    using y by (simp add: spec_record_def)
  from y have "int y - 1 = int (y - 1)" by simp
  then have tax: "calculateProp13Tax (purchasePrice inputs) (int y - 1) (propertyTaxRate inputs) =
       purchasePrice inputs * (102 / 100) ^ (y - 1) * propertyTaxRate inputs"
    unfolding calculateProp13Tax_def Math_pow_def Let_def by (simp only: power_int_of_nat)
  show ?thesis
    unfolding cur cost homeValue_spec_record bal tax
    by (simp add: spec_ownershipCost_def monthlyMortgage_def other)
qed

theorem thirty_year_term_witness:
  "(1::nat) \<le> 3 \<and> int 3 \<le> 40 \<and> int 3 \<le> 5
   \<and> mortgageBalance (calculateNetWorth baseInputs 40 ! 3) =
       calculateMortgageBalance (loanAmount baseInputs) (mortgageRate baseInputs) (int 3 * 12) 30
   \<and> calculateNetWorth baseInputs 5 ! 3 = calculateNetWorth baseInputs 40 ! 3"
proof -
  have h1: "(1::nat) \<le> 3" and h2: "int 3 \<le> 40" and h3: "int 3 \<le> 5" by simp_all
  note T = thirty_year_term [OF h1 h2, of baseInputs 5]
  from T have "mortgageBalance (calculateNetWorth baseInputs 40 ! 3) =
       calculateMortgageBalance (loanAmount baseInputs) (mortgageRate baseInputs) (int 3 * 12) 30"
    by (rule conjunct1)
  moreover from T h3 have "calculateNetWorth baseInputs 5 ! 3 = calculateNetWorth baseInputs 40 ! 3"
    by blast
  ultimately show ?thesis using h1 h2 h3 by blast
qed


subsection \<open>Amortization\<close>

text \<open>Claim C8. At annual rate 0 both functions take their straight-line branch:
  the payment is principal / (n \<times> 12), which is 1000 for 360,000 over 30 years, and the
  balance is principal - payment \<times> months paid. The only divisor of that branch is
  \<open>n \<times> 12\<close>; for a term \<open>n \<noteq> 0\<close> the payments of the whole term add up to the principal and
  the balance at the end of the term is 0.\<close>

theorem zero_rate_straight_line:
  "calculateMonthlyMortgage P 0 n = P / (of_int n * 12)
   \<and> calculateMonthlyMortgage 360000 0 30 = 1000
   \<and> calculateMortgageBalance P 0 m n = P - calculateMonthlyMortgage P 0 n * of_int m
   \<and> (n \<noteq> 0 \<longrightarrow> calculateMonthlyMortgage P 0 n * (of_int n * 12) = P
                \<and> calculateMortgageBalance P 0 (n * 12) n = 0)"
  by (simp add: calculateMonthlyMortgage_def calculateMortgageBalance_def)

theorem zero_rate_straight_line_witness:
  "(30::int) \<noteq> 0 \<and> calculateMonthlyMortgage 360000 0 30 * (of_int 30 * 12) = 360000
   \<and> calculateMortgageBalance 360000 0 (30 * 12) 30 = 0
   \<and> calculateMortgageBalance 360000 0 12 30 = 348000"
proof -
  have h: "(30::int) \<noteq> 0" by simp
  note T = zero_rate_straight_line [of 360000 30 12]
  from T have "calculateMonthlyMortgage 360000 0 30 * (of_int 30 * 12) = 360000
                \<and> calculateMortgageBalance 360000 0 (30 * 12) 30 = 0"
    using h by blast
  moreover from T have "calculateMortgageBalance 360000 0 12 30 = 348000"
    by simp
  ultimately show ?thesis using h by blast
qed


text \<open>With a positive rate, a positive term and a principal that is not negative, the
  balance has a closed form, is clamped at zero, does not increase with the months paid,
  and is zero from the end of the term on. At rate 0 it does not increase either.\<close>

lemma calculateMortgageBalance_closed_form:
  assumes rate: "0 < annualRate" and yrs: "0 < years"
  shows "calculateMortgageBalance P annualRate m years =
           max 0 (P * (Math_pow (1 + annualRate / 12) (years * 12) - Math_pow (1 + annualRate / 12) m)
                    / (Math_pow (1 + annualRate / 12) (years * 12) - 1))"
proof -
  define r where "r = annualRate / 12"
  define q where "q = Math_pow (1 + r) (years * 12)"
  define a where "a = Math_pow (1 + r) m"
  from rate have r: "0 < r" by (simp add: r_def)
  then have "1 < 1 + r" by simp
  moreover from yrs have "0 < years * 12" by simp
  ultimately have q: "1 < q" unfolding q_def Math_pow_def by (rule one_less_power_int)
  have "P * a - (P * r * q / (q - 1) * (a - 1)) / r = P * (q - a) / (q - 1)"
    using r q by (simp add: field_simps)
  with r show ?thesis
    by (simp add: calculateMortgageBalance_def calculateMonthlyMortgage_def Let_def
        r_def [symmetric] q_def [symmetric] a_def [symmetric])
qed

lemma calculateMortgageBalance_antimono:
  assumes P: "0 \<le> P" and rate: "0 < annualRate" and yrs: "0 < years" and le: "m \<le> m'"
  shows "calculateMortgageBalance P annualRate m' years \<le> calculateMortgageBalance P annualRate m years"
proof -
  define r where "r = annualRate / 12"
  define q where "q = Math_pow (1 + r) (years * 12)"
  from rate have r: "0 < r" by (simp add: r_def)
  then have "1 < 1 + r" by simp
  moreover from yrs have "0 < years * 12" by simp
  ultimately have q: "1 < q" unfolding q_def Math_pow_def by (rule one_less_power_int)
  from r le have "Math_pow (1 + r) m \<le> Math_pow (1 + r) m'"
    unfolding Math_pow_def by (intro power_int_increasing) simp_all
  then have "P * (q - Math_pow (1 + r) m') \<le> P * (q - Math_pow (1 + r) m)"
    using P by (intro mult_left_mono) simp_all
  then have "P * (q - Math_pow (1 + r) m') / (q - 1) \<le> P * (q - Math_pow (1 + r) m) / (q - 1)"
    using q by (intro divide_right_mono) simp_all
  then show ?thesis
    unfolding calculateMortgageBalance_closed_form [OF rate yrs] r_def [symmetric] q_def [symmetric]
    by (intro max.mono) simp_all
qed

lemma calculateMortgageBalance_nonneg:
  "annualRate \<noteq> 0 \<Longrightarrow> 0 \<le> calculateMortgageBalance P annualRate m years"
  by (simp add: calculateMortgageBalance_def Let_def)

lemma calculateMortgageBalance_paid_off:
  assumes P: "0 \<le> P" and rate: "0 < annualRate" and yrs: "0 < years" and le: "years * 12 \<le> m"
  shows "calculateMortgageBalance P annualRate m years = 0"
proof -
  define r where "r = annualRate / 12"
  define q where "q = Math_pow (1 + r) (years * 12)"
  from rate have r: "0 < r" by (simp add: r_def)
  then have "1 < 1 + r" by simp
  moreover from yrs have "0 < years * 12" by simp
  ultimately have q: "1 < q" unfolding q_def Math_pow_def by (rule one_less_power_int)
  from r le have "q \<le> Math_pow (1 + r) m"
    unfolding Math_pow_def q_def by (intro power_int_increasing) simp_all
  then have "P * (q - Math_pow (1 + r) m) \<le> 0"
    using P by (simp add: mult_nonneg_nonpos)
  then have "P * (q - Math_pow (1 + r) m) / (q - 1) \<le> 0"
    using q by (simp add: divide_nonpos_pos)
  then show ?thesis
    unfolding calculateMortgageBalance_closed_form [OF rate yrs] r_def [symmetric] q_def [symmetric]
    by simp
qed

lemma calculateMortgageBalance_zero_rate_antimono:
  assumes P: "0 \<le> P" and yrs: "0 < years" and le: "m \<le> m'"
  shows "calculateMortgageBalance P 0 m' years \<le> calculateMortgageBalance P 0 m years"
proof -
  from P yrs have "0 \<le> P / (of_int years * 12)" by simp
  moreover from le have "real_of_int m \<le> real_of_int m'" by simp
  ultimately have "P / (of_int years * 12) * real_of_int m \<le> P / (of_int years * 12) * real_of_int m'"
    by (rule mult_left_mono [rotated])
  then show ?thesis
    by (simp add: calculateMortgageBalance_def calculateMonthlyMortgage_def)
qed

text \<open>Claim C6. The balance is claimed never to be negative. The branch for rate 0 returns
  before the clamp \<^verbatim>\<open>Math.max(0, balance)\<close> of the general branch: after 361 months of an
  interest-free 30-year loan of 360,000 the function returns -1000, and the simulation
  records a mortgage balance of -12,000 for year 31. At 6 percent the same call returns 0.\<close>

theorem calculateMortgageBalance_zero_rate_unclamped:
  "calculateMortgageBalance 360000 0 361 30 = - 1000
   \<and> mortgageBalance (calculateNetWorth zeroRateInputs 31 ! 31) = - 12000
   \<and> calculateMortgageBalance 360000 (6 / 100) 361 30 = 0"
proof -
  have a: "calculateMortgageBalance 360000 0 361 30 = - 1000"
    by (simp add: calculateMortgageBalance_def calculateMonthlyMortgage_def)
  have "(31::nat) \<le> nat 31" by simp
  then have "calculateNetWorth zeroRateInputs 31 ! 31 = spec_record zeroRateInputs 31"
    by (rule calculateNetWorth_nth)
  then have b: "mortgageBalance (calculateNetWorth zeroRateInputs 31 ! 31) = - 12000"
    by (simp add: spec_record_def zeroRateInputs_def baseInputs_def loanAmount_def downPayment_def
        calculateMortgageBalance_def calculateMonthlyMortgage_def)
  have c: "calculateMortgageBalance 360000 (6 / 100) 361 30 = 0"
    by (rule calculateMortgageBalance_paid_off) simp_all
  from a b c show ?thesis by simp
qed


subsection \<open>Crossover\<close>

lemma spec_crossover_code:
  "year prv + (rentNetWorth prv - buyNetWorth prv) /
     (buyNetWorth cur - rentNetWorth cur + rentNetWorth prv - buyNetWorth prv)
   = spec_crossover prv cur"
proof -
  have "buyNetWorth cur - rentNetWorth cur + rentNetWorth prv - buyNetWorth prv
        = (buyNetWorth cur - buyNetWorth prv) - (rentNetWorth cur - rentNetWorth prv)"
    by simp
  then show ?thesis by (simp only: spec_crossover_def)
qed

lemma findCrossoverYear_loop_unfold:
  "findCrossoverYear_loop data i =
     (if i < length data then
        if transition_pair (data ! (i - 1)) (data ! i)
        then Some (spec_crossover (data ! (i - 1)) (data ! i))
        else findCrossoverYear_loop data (i + 1)
      else None)"
  by (subst findCrossoverYear_loop.simps)
     (simp only: Let_def transition_pair_def spec_crossover_code)

lemma findCrossoverYear_loop_find:
  "findCrossoverYear_loop data i =
     (case find (\<lambda>k. transition_pair (data ! (k - 1)) (data ! k)) [i ..< length data] of
        None \<Rightarrow> None
      | Some k \<Rightarrow> Some (spec_crossover (data ! (k - 1)) (data ! k)))"
proof (induction data i rule: findCrossoverYear_loop.induct)
  case (1 data i)
  show ?case
  proof (cases "i < length data")
    case False
    then show ?thesis by (subst findCrossoverYear_loop_unfold) simp
  next
    case True
    then have up: "[i ..< length data] = i # [i + 1 ..< length data]"
      by (simp add: upt_conv_Cons)
    show ?thesis
    proof (cases "transition_pair (data ! (i - 1)) (data ! i)")
      case yes: True
      with True show ?thesis
        by (subst findCrossoverYear_loop_unfold) (simp add: up)
    next
      case no: False
      then have "\<not> (buyNetWorth (data ! (i - 1)) \<le> rentNetWorth (data ! (i - 1))
                   \<and> rentNetWorth (data ! i) < buyNetWorth (data ! i))"
        by (simp add: transition_pair_def)
      note IH = "1.IH" [OF True refl refl this]
      from True no have "findCrossoverYear_loop data i = findCrossoverYear_loop data (i + 1)"
        by (subst findCrossoverYear_loop_unfold) simp
      with IH no show ?thesis by (simp add: up)
    qed
  qed
qed

lemma findCrossoverYear_first_transition:
  "findCrossoverYear data =
     (case first_transition data of
        None \<Rightarrow> None
      | Some i \<Rightarrow> Some (spec_crossover (data ! (i - 1)) (data ! i)))"
  by (simp only: findCrossoverYear_def first_transition_def findCrossoverYear_loop_find)

lemma first_transition_None:
  "first_transition data = None \<longleftrightarrow>
     (\<forall>i\<in>{1 ..< length data}. \<not> transition_pair (data ! (i - 1)) (data ! i))"
  by (auto simp add: first_transition_def find_None_iff)

lemma first_transition_Some:
  "first_transition data = Some i \<longleftrightarrow>
     1 \<le> i \<and> i < length data \<and> transition_pair (data ! (i - 1)) (data ! i)
     \<and> (\<forall>j\<in>{1 ..< i}. \<not> transition_pair (data ! (j - 1)) (data ! j))"
  (is "?l \<longleftrightarrow> ?r")
proof
  let ?P = "\<lambda>k. transition_pair (data ! (k - 1)) (data ! k)"
  assume ?l
  then obtain k where k: "k < length [1 ..< length data]" "?P ([1 ..< length data] ! k)"
      "i = [1 ..< length data] ! k" "\<forall>j<k. \<not> ?P ([1 ..< length data] ! j)"
    unfolding first_transition_def find_Some_iff by blast
  from k(1,3) have i: "i = 1 + k" "i < length data" by simp_all
  have "\<not> ?P j" if "j \<in> {1 ..< i}" for j
  proof -
    from that i have "j - 1 < k" "1 \<le> j" by auto
    with k(4) have "\<not> ?P ([1 ..< length data] ! (j - 1))" by blast
    moreover have "[1 ..< length data] ! (j - 1) = j"
      using \<open>j - 1 < k\<close> \<open>1 \<le> j\<close> k(1) by simp
    ultimately show ?thesis by simp
  qed
  with k(2,3) i show ?r by simp
next
  let ?P = "\<lambda>k. transition_pair (data ! (k - 1)) (data ! k)"
  assume r: ?r
  then have i: "1 \<le> i" "i < length data" by simp_all
  then have k: "i - 1 < length [1 ..< length data]" "[1 ..< length data] ! (i - 1) = i"
    by auto
  have "\<not> ?P ([1 ..< length data] ! j)" if "j < i - 1" for j
  proof -
    from that i have "[1 ..< length data] ! j = 1 + j" "1 + j \<in> {1 ..< i}" by auto
    with r show ?thesis by metis
  qed
  with r k show ?l
    unfolding first_transition_def find_Some_iff
    by (intro exI [of _ "i - 1"]) simp
qed

lemma ratio_bounds:
  fixes a b :: real
  assumes "0 \<le> a" "0 < b"
  shows "0 \<le> a / (b + a)" "a / (b + a) < 1" "a / (b + a) = 0 \<longleftrightarrow> a = 0"
  using assms by (simp_all add: field_simps)


lemma first_transition_crossoverData: "first_transition crossoverData = Some 2"
  by (simp add: first_transition_def crossoverData_def netWorthRecord_def transition_pair_def
      upt_conv_Cons)

lemma no_transition_if_buy_leads:
  "\<forall>r\<in>set data. buyNetWorth r > rentNetWorth r \<Longrightarrow> first_transition data = None"
  unfolding first_transition_None
proof
  fix i assume a: "\<forall>r\<in>set data. buyNetWorth r > rentNetWorth r" and "i \<in> {1 ..< length data}"
  then have "i - 1 < length data" by auto
  then have "data ! (i - 1) \<in> set data" by (rule nth_mem)
  with a show "\<not> transition_pair (data ! (i - 1)) (data ! i)"
    by (fastforce simp add: transition_pair_def)
qed

lemma no_transition_if_rent_leads:
  "\<forall>r\<in>set data. rentNetWorth r > buyNetWorth r \<Longrightarrow> first_transition data = None"
  unfolding first_transition_None
proof
  fix i assume a: "\<forall>r\<in>set data. rentNetWorth r > buyNetWorth r" and "i \<in> {1 ..< length data}"
  then have "data ! i \<in> set data" by simp
  with a show "\<not> transition_pair (data ! (i - 1)) (data ! i)"
    by (fastforce simp add: transition_pair_def)
qed

lemma spec_crossover_bounds:
  assumes "transition_pair prv cur"
  shows "year prv \<le> spec_crossover prv cur"
    and "spec_crossover prv cur < year prv + 1"
    and "spec_crossover prv cur = year prv \<longleftrightarrow> buyNetWorth prv = rentNetWorth prv"
proof -
  define a where "a = rentNetWorth prv - buyNetWorth prv"
  define b where "b = buyNetWorth cur - rentNetWorth cur"
  from assms have a: "0 \<le> a" and b: "0 < b"
    by (simp_all add: transition_pair_def a_def b_def)
  have "(buyNetWorth cur - buyNetWorth prv) - (rentNetWorth cur - rentNetWorth prv) = b + a"
    by (simp add: a_def b_def)
  then have eq: "spec_crossover prv cur = year prv + a / (b + a)"
    by (simp only: spec_crossover_def a_def [symmetric])
  from ratio_bounds [OF a b] show "year prv \<le> spec_crossover prv cur"
    and "spec_crossover prv cur < year prv + 1"
    by (simp_all only: eq)
  have "a / (b + a) = 0 \<longleftrightarrow> a = 0" by (rule ratio_bounds [OF a b])
  then show "spec_crossover prv cur = year prv \<longleftrightarrow> buyNetWorth prv = rentNetWorth prv"
    unfolding eq by (auto simp add: a_def)
qed

text \<open>Claim C1. \<^verbatim>\<open>findCrossoverYear\<close> returns, for the first index \<open>i\<close> (in scanning
  order) whose pair (record \<open>i - 1\<close>, record \<open>i\<close>) is a transition, the interpolated year
  \<open>prev.year + (prev.rent - prev.buy) / ((curr.buy - prev.buy) - (curr.rent - prev.rent))\<close>,
  and nothing of any later transition; it returns no value exactly when no pair is a
  transition, in particular when buying is ahead at every record.\<close>

theorem findCrossoverYear_first_crossing:
  "findCrossoverYear data =
     (case first_transition data of
        None \<Rightarrow> None
      | Some i \<Rightarrow> Some (spec_crossover (data ! (i - 1)) (data ! i)))
   \<and> (first_transition data = Some i \<longleftrightarrow>
        1 \<le> i \<and> i < length data \<and> transition_pair (data ! (i - 1)) (data ! i)
        \<and> (\<forall>j\<in>{1 ..< i}. \<not> transition_pair (data ! (j - 1)) (data ! j)))
   \<and> (findCrossoverYear data = None \<longleftrightarrow>
        (\<forall>k\<in>{1 ..< length data}. \<not> transition_pair (data ! (k - 1)) (data ! k)))
   \<and> ((\<forall>r\<in>set data. buyNetWorth r > rentNetWorth r) \<longrightarrow> findCrossoverYear data = None)"
proof (intro conjI)
  show "findCrossoverYear data =
     (case first_transition data of
        None \<Rightarrow> None
      | Some i \<Rightarrow> Some (spec_crossover (data ! (i - 1)) (data ! i)))"
    by (rule findCrossoverYear_first_transition)
  show "first_transition data = Some i \<longleftrightarrow>
        1 \<le> i \<and> i < length data \<and> transition_pair (data ! (i - 1)) (data ! i)
        \<and> (\<forall>j\<in>{1 ..< i}. \<not> transition_pair (data ! (j - 1)) (data ! j))"
    by (rule first_transition_Some)
  have "findCrossoverYear data = None \<longleftrightarrow> first_transition data = None"
    by (simp add: findCrossoverYear_first_transition split: option.splits)
  then show "findCrossoverYear data = None \<longleftrightarrow>
        (\<forall>k\<in>{1 ..< length data}. \<not> transition_pair (data ! (k - 1)) (data ! k))"
    by (simp only: first_transition_None)
  show "(\<forall>r\<in>set data. buyNetWorth r > rentNetWorth r) \<longrightarrow> findCrossoverYear data = None"
    by (simp add: findCrossoverYear_first_transition no_transition_if_buy_leads)
qed

theorem findCrossoverYear_first_crossing_witness:
  "findCrossoverYear crossoverData = Some (5 / 3)
   \<and> findCrossoverYear twoCrossings = Some (1 / 2)
   \<and> findCrossoverYear buyLeads = None"
proof -
  note first = findCrossoverYear_first_crossing [THEN conjunct2, THEN conjunct1, THEN iffD2]
  note val = findCrossoverYear_first_crossing [THEN conjunct1]
  note leads = findCrossoverYear_first_crossing [THEN conjunct2, THEN conjunct2, THEN conjunct2, THEN mp]
  have "first_transition crossoverData = Some 2"
    by (rule first) (simp add: crossoverData_def netWorthRecord_def transition_pair_def)
  with val [of crossoverData] have "findCrossoverYear crossoverData = Some (5 / 3)"
    by (simp add: crossoverData_def netWorthRecord_def spec_crossover_def)
  moreover have "first_transition twoCrossings = Some 1"
    by (rule first) (simp add: twoCrossings_def netWorthRecord_def transition_pair_def)
  with val [of twoCrossings] have "findCrossoverYear twoCrossings = Some (1 / 2)"
    by (simp add: twoCrossings_def netWorthRecord_def spec_crossover_def)
  moreover have "findCrossoverYear buyLeads = None"
    by (rule leads) (simp add: buyLeads_def netWorthRecord_def)
  ultimately show ?thesis by simp
qed


text \<open>Claim C9, as the code has it. At the first transition pair the returned year \<open>t\<close>
  satisfies \<open>prev.year \<le> t < prev.year + 1\<close>, and \<open>t = prev.year\<close> exactly when the two sides
  are equal at \<open>prev\<close>; if renting is strictly ahead at \<open>prev\<close> and the records are one year
  apart, \<open>t\<close> is strictly between \<open>prev.year\<close> and \<open>curr.year\<close>. A sequence in which renting is
  strictly ahead at every record gives no value. On buy = [100, 180, 260],
  rent = [200, 220, 240] at years 0, 1, 2 the result is strictly between 1 and 2.\<close>

theorem findCrossoverYear_bracket:
  "(first_transition data = Some i \<longrightarrow>
      (\<exists>t. findCrossoverYear data = Some t
          \<and> year (data ! (i - 1)) \<le> t \<and> t < year (data ! (i - 1)) + 1
          \<and> (t = year (data ! (i - 1)) \<longleftrightarrow>
               buyNetWorth (data ! (i - 1)) = rentNetWorth (data ! (i - 1)))
          \<and> (buyNetWorth (data ! (i - 1)) < rentNetWorth (data ! (i - 1))
               \<and> year (data ! i) = year (data ! (i - 1)) + 1 \<longrightarrow>
               year (data ! (i - 1)) < t \<and> t < year (data ! i))))
   \<and> ((\<forall>r\<in>set data. rentNetWorth r > buyNetWorth r) \<longrightarrow> findCrossoverYear data = None)
   \<and> (\<exists>t. findCrossoverYear crossoverData = Some t \<and> 1 < t \<and> t < 2)"
proof (intro conjI impI)
  assume ft: "first_transition data = Some i"
  let ?prv = "data ! (i - 1)" and ?cur = "data ! i"
  let ?t = "spec_crossover ?prv ?cur"
  from ft have tp: "transition_pair ?prv ?cur"
    by (simp add: first_transition_Some)
  have res: "findCrossoverYear data = Some ?t"
    by (simp add: findCrossoverYear_first_transition ft)
  note bnd = spec_crossover_bounds [OF tp]
  have "buyNetWorth ?prv < rentNetWorth ?prv \<and> year ?cur = year ?prv + 1 \<longrightarrow>
          year ?prv < ?t \<and> ?t < year ?cur"
    using bnd by auto
  with res bnd show "\<exists>t. findCrossoverYear data = Some t
          \<and> year ?prv \<le> t \<and> t < year ?prv + 1
          \<and> (t = year ?prv \<longleftrightarrow> buyNetWorth ?prv = rentNetWorth ?prv)
          \<and> (buyNetWorth ?prv < rentNetWorth ?prv \<and> year ?cur = year ?prv + 1 \<longrightarrow>
               year ?prv < t \<and> t < year ?cur)"
    by blast
next
  assume "\<forall>r\<in>set data. rentNetWorth r > buyNetWorth r"
  then show "findCrossoverYear data = None"
    by (simp add: findCrossoverYear_first_transition no_transition_if_rent_leads)
next
  have "findCrossoverYear crossoverData = Some (5 / 3)"
    by (simp add: findCrossoverYear_first_transition first_transition_crossoverData)
       (simp add: crossoverData_def netWorthRecord_def spec_crossover_def)
  moreover have "1 < (5 / 3 :: real)" "(5 / 3 :: real) < 2" by simp_all
  ultimately show "\<exists>t. findCrossoverYear crossoverData = Some t \<and> 1 < t \<and> t < 2"
    by blast
qed

theorem findCrossoverYear_bracket_witness:
  "first_transition crossoverData = Some 2
   \<and> 1 < the (findCrossoverYear crossoverData)
   \<and> the (findCrossoverYear crossoverData) < 2
   \<and> findCrossoverYear rentLeads = None"
proof -
  have ft: "first_transition crossoverData = Some 2"
    by (rule first_transition_crossoverData)
  have prv: "buyNetWorth (crossoverData ! (2 - 1)) < rentNetWorth (crossoverData ! (2 - 1))"
    and yrs: "year (crossoverData ! (2 - 1)) = 1" "year (crossoverData ! 2) = 2"
    by (simp_all add: crossoverData_def netWorthRecord_def)
  from findCrossoverYear_bracket [of crossoverData 2, THEN conjunct1, THEN mp, OF ft]
  obtain t where t: "findCrossoverYear crossoverData = Some t"
    and "buyNetWorth (crossoverData ! (2 - 1)) < rentNetWorth (crossoverData ! (2 - 1))
         \<and> year (crossoverData ! 2) = year (crossoverData ! (2 - 1)) + 1 \<longrightarrow>
         year (crossoverData ! (2 - 1)) < t \<and> t < year (crossoverData ! 2)"
    by blast
  with prv yrs have "1 < t" "t < 2" by simp_all
  with t have between: "1 < the (findCrossoverYear crossoverData)"
    "the (findCrossoverYear crossoverData) < 2"
    by simp_all
  have h: "\<forall>r\<in>set rentLeads. rentNetWorth r > buyNetWorth r"
    by (simp add: rentLeads_def netWorthRecord_def)
  from findCrossoverYear_bracket [of rentLeads 1, THEN conjunct2, THEN conjunct1, THEN mp, OF h]
  have "findCrossoverYear rentLeads = None" .
  with ft between show ?thesis by simp
qed

text \<open>Claim C9 as stated fails at a tie: with buy = [100, 200] and rent = [100, 150] at
  years 0 and 1 the pair is a transition and the result is 0, the year of \<open>prev\<close> itself.\<close>

theorem findCrossoverYear_tie_counterexample:
  "transition_pair (tieData ! 0) (tieData ! 1)
   \<and> year (tieData ! 0) = 0 \<and> year (tieData ! 1) = 1
   \<and> findCrossoverYear tieData = Some 0"
  by code_simp


end
